theory Spec2Isabelle
  imports Complex_Main "HOL-Library.Multiset"
begin

section \<open>Hybrid elimination in GaussianHybridFactorGraph.cpp\<close>

text \<open>
  A shallow embedding of \<^verbatim>\<open>gtsam/hybrid/GaussianHybridFactorGraph.cpp\<close>: the
  plain-factor \<^verbatim>\<open>operator+=\<close> on a \<^verbatim>\<open>Sum\<close>, \<^verbatim>\<open>GaussianHybridFactorGraph::sum\<close>,
  \<^verbatim>\<open>toDecisionTreeFactor\<close> and \<^verbatim>\<open>EliminateHybrid\<close>.

  Conventions of the embedding.
  \<^item> A \<^verbatim>\<open>shared_ptr<T>\<close> is a \<open>T option\<close>; \<open>None\<close> is the null pointer.
  \<^item> A \<^verbatim>\<open>double\<close> is idealised as a \<open>real\<close>; no statement below depends on rounding.
  \<^item> A thrown exception is the \<open>Inl\<close> of a sum type.
  \<^item> The Gaussian factor, conditional, vector-values and discrete factor classes are
    not part of the file; their objects are type variables \<open>'f\<close>, \<open>'c\<close>, \<open>'v\<close>,
    \<open>'df\<close>, \<open>'dn\<close>, and the functions the file calls on them are the fields of the
    record \<open>Oracles\<close>.
\<close>

subsection \<open>Keys and errors\<close>

type_synonym Key = nat
type_synonym KeyVector = "Key list"
type_synonym Ordering = "Key list"
type_synonym DiscreteKey = "Key \<times> nat"
type_synonym DiscreteKeys = "DiscreteKey list"

datatype error =
    runtime_error string
  | oracle_failure
  | null_dereference

definition bind_err :: "error + 'a \<Rightarrow> ('a \<Rightarrow> error + 'b) \<Rightarrow> error + 'b" where
  "bind_err x f = (case x of Inl e \<Rightarrow> Inl e | Inr a \<Rightarrow> f a)"

subsection \<open>The decision tree\<close>

text \<open>
  Modelled from the spec: \<^verbatim>\<open>DecisionTree<L, Y>\<close> (gtsam/discrete/DecisionTree.h is not
  among the sources). The spec describes it as an immutable map from the assignments of
  a tree-owned set of discrete keys to leaf values, with a single-leaf constructor, a
  functional map, a join over the union of two key sets that pairs the leaves whose
  assignments agree on the shared keys, and an unzip. Here it is a tree that is a leaf
  or a choice on one key with one branch per value of that key. A default-constructed
  tree (empty, no root) is \<open>None\<close> of \<open>'y DecisionTree option\<close>.
\<close>

datatype 'y DecisionTree =
    Leaf 'y
  | Choice Key "'y DecisionTree list"

text \<open>The keys a tree branches on, and its leaves from left to right.\<close>

fun labels :: "'y DecisionTree \<Rightarrow> Key set" where
  "labels (Leaf y) = {}"
| "labels (Choice k bs) = insert k (\<Union>b \<in> set bs. labels b)"

fun leaves :: "'y DecisionTree \<Rightarrow> 'y list" where
  "leaves (Leaf y) = [y]"
| "leaves (Choice k bs) = concat (map leaves bs)"

definition nrLeaves :: "'y DecisionTree \<Rightarrow> nat" where
  "nrLeaves t = length (leaves t)"

text \<open>
  Modelled from the spec: the converting constructor \<^verbatim>\<open>DecisionTree(other, op)\<close> for an
  \<^verbatim>\<open>op\<close> that reads and writes captured variables or throws. The leaves are visited from
  left to right, the captured variables are the state \<open>'s\<close>, and the first exception
  ends the traversal. For an \<^verbatim>\<open>op\<close> without effects the constructor is
  \<open>map_DecisionTree\<close>.
\<close>

fun convert :: "('a \<Rightarrow> 's \<Rightarrow> error + ('b \<times> 's)) \<Rightarrow> 'a DecisionTree \<Rightarrow> 's
                  \<Rightarrow> error + ('b DecisionTree \<times> 's)"
  and convert_branches :: "('a \<Rightarrow> 's \<Rightarrow> error + ('b \<times> 's)) \<Rightarrow> 'a DecisionTree list \<Rightarrow> 's
                  \<Rightarrow> error + ('b DecisionTree list \<times> 's)" where
  "convert op (Leaf a) s = bind_err (op a s) (\<lambda>(b, s'). Inr (Leaf b, s'))"
| "convert op (Choice k bs) s =
     bind_err (convert_branches op bs s) (\<lambda>(bs', s'). Inr (Choice k bs', s'))"
| "convert_branches op [] s = Inr ([], s)"
| "convert_branches op (t # ts) s =
     bind_err (convert op t s) (\<lambda>(t', s').
       bind_err (convert_branches op ts s') (\<lambda>(ts', s''). Inr (t' # ts', s'')))"

text \<open>Modelled from the spec: \<^verbatim>\<open>unzip\<close> splits a tree of pairs into two parallel trees.\<close>

definition unzip :: "('a \<times> 'b) DecisionTree \<Rightarrow> 'a DecisionTree \<times> 'b DecisionTree" where
  "unzip t = (map_DecisionTree fst t, map_DecisionTree snd t)"

text \<open>
  Modelled from the spec: the join of two trees. \<open>restrict l i t\<close> restricts \<open>t\<close> to the
  assignments that give key \<open>l\<close> the value \<open>i\<close>; \<open>join op f g\<close> is a tree over the keys
  of \<open>f\<close> followed by the remaining keys of \<open>g\<close>, whose leaf at a combined assignment is
  \<open>op\<close> of the two leaves that agree with it.
\<close>

function restrict :: "Key \<Rightarrow> nat \<Rightarrow> 'y DecisionTree \<Rightarrow> 'y DecisionTree" where
  "restrict l i (Leaf y) = Leaf y"
| "restrict l i (Choice k bs) =
     (if k = l then (case drop i bs of b # _ \<Rightarrow> restrict l i b | [] \<Rightarrow> Choice k [])
      else Choice k (map (restrict l i) bs))"
  by pat_completeness auto
termination
proof (relation "measure (\<lambda>(l, i, t). size t)")
  show "wf (measure (\<lambda>(l, i, t :: 'y DecisionTree). size t))" by simp
next
  fix l i k :: nat and bs :: "'y DecisionTree list" and b rest
  assume "drop i bs = b # rest"
  then have "b \<in> set bs" by (metis in_set_dropD list.set_intros(1))
  then have "size b \<le> size_list size bs" by (rule size_list_estimation') simp
  then show "((l, i, b), (l, i, Choice k bs)) \<in> measure (\<lambda>(l, i, t). size t)" by simp
next
  fix l i k :: nat and bs :: "'y DecisionTree list" and b
  assume "b \<in> set bs"
  then have "size b \<le> size_list size bs" by (rule size_list_estimation') simp
  then show "((l, i, b), (l, i, Choice k bs)) \<in> measure (\<lambda>(l, i, t). size t)" by simp
qed

fun join :: "('a \<Rightarrow> 'b \<Rightarrow> 'c) \<Rightarrow> 'a DecisionTree \<Rightarrow> 'b DecisionTree \<Rightarrow> 'c DecisionTree"
  and join_branches :: "('a \<Rightarrow> 'b \<Rightarrow> 'c) \<Rightarrow> Key \<Rightarrow> nat \<Rightarrow> 'a DecisionTree list
                          \<Rightarrow> 'b DecisionTree \<Rightarrow> 'c DecisionTree list" where
  "join op (Leaf a) g = map_DecisionTree (op a) g"
| "join op (Choice k bs) g = Choice k (join_branches op k 0 bs g)"
| "join_branches op k i [] g = []"
| "join_branches op k i (b # bs) g = join op b (restrict k i g) # join_branches op k (Suc i) bs g"

subsection \<open>Factors, graphs and the external functions\<close>

text \<open>
  The classes the file builds or reads, with one field per constructor argument or
  accessor. \<open>discreteKeys\<close> of the graph is what \<^verbatim>\<open>factors.discreteKeys()\<close> returns: the
  discrete keys of the whole graph, those of its discrete factors included.
\<close>

record 'f DCGaussianMixtureFactor =
  mf_keys :: KeyVector
  mf_discreteKeys :: DiscreteKeys
  mf_factors :: "'f option DecisionTree"

datatype 'f DCFactor =
    Mixture "'f DCGaussianMixtureFactor"
  | OtherDCFactor

record ('f, 'df) GaussianHybridFactorGraph =
  discreteGraph :: "'df list"
  dcGraph :: "'f DCFactor option list"
  gaussianGraph :: "'f option list"
  discreteKeys :: DiscreteKeys

record 'c GaussianMixture =
  nrFrontals :: nat
  gm_keys :: KeyVector
  gm_discreteKeys :: DiscreteKeys
  conditionals :: "'c option DecisionTree"

record DecisionTreeFactor =
  dtf_discreteKeys :: DiscreteKeys
  potentials :: "real DecisionTree option"

datatype ('c, 'dn) AbstractConditional =
    DiscreteConditional 'dn
  | GaussianMixtureConditional "'c GaussianMixture"

datatype ('f, 'df) Factor =
    DiscreteFactor 'df
  | PotentialFactor DecisionTreeFactor
  | MixtureFactor "'f DCGaussianMixtureFactor"

text \<open>
  The functions of other files that the code calls. A function that can throw returns a
  sum. \<open>cond_keys\<close> and \<open>factor_keys\<close> are \<^verbatim>\<open>keys()\<close> of a conditional and of a factor,
  \<open>factor_error\<close> is \<^verbatim>\<open>factor->error(empty_values)\<close>, \<open>graph_error\<close> is the residual
  energy of a factor collection at given values.
\<close>

record ('f, 'c, 'v, 'df, 'dn) Oracles =
  EliminatePreferCholesky :: "'f option list \<Rightarrow> Ordering \<Rightarrow> error + ('c option \<times> 'f option)"
  EliminateForMPE :: "'df list \<Rightarrow> Ordering \<Rightarrow> error + ('dn \<times> 'df)"
  cond_keys :: "'c \<Rightarrow> KeyVector"
  factor_keys :: "'f \<Rightarrow> KeyVector"
  factor_error :: "'f \<Rightarrow> real"
  optimize :: "'f option list \<Rightarrow> error + 'v"
  graph_error :: "'f option list \<Rightarrow> 'v \<Rightarrow> real"

subsection \<open>The aggregate\<close>

text \<open>
  \<^verbatim>\<open>Sum\<close> is a decision tree of factor collections; a default-constructed \<^verbatim>\<open>Sum\<close> is
  \<open>None\<close>. \<open>plus_factor\<close> is \<^verbatim>\<open>operator+=(Sum&, const GaussianFactor::shared_ptr&)\<close>.
\<close>

type_synonym 'f Sum = "'f option list DecisionTree option"

definition plus_factor :: "'f Sum \<Rightarrow> 'f option \<Rightarrow> 'f Sum" where
  "plus_factor sm factor =
     (case sm of
        None \<Rightarrow> Some (Leaf ([] @ [factor]))
      | Some t \<Rightarrow> Some (map_DecisionTree (\<lambda>graph. graph @ [factor]) t))"

text \<open>
  Modelled from the spec: \<^verbatim>\<open>sum += *mixtureFactor\<close>, the fold of a mixture factor
  (gtsam/hybrid/DCGaussianMixtureFactor.h is not among the sources). The spec: a join
  over the union of the keys; the new leaf's collection is the aggregate leaf's
  collection followed by the mixture factor's leaf for that assignment, appended if
  non-null. Folding into the empty aggregate joins with a single leaf that holds the
  empty collection.
\<close>

definition append_nonnull :: "'f option list \<Rightarrow> 'f option \<Rightarrow> 'f option list" where
  "append_nonnull graph factor = (case factor of None \<Rightarrow> graph | Some f \<Rightarrow> graph @ [Some f])"

definition plus_mixture :: "'f Sum \<Rightarrow> 'f DCGaussianMixtureFactor \<Rightarrow> 'f Sum" where
  "plus_mixture sm mixtureFactor =
     (case sm of
        None \<Rightarrow> Some (join append_nonnull (Leaf []) (mf_factors mixtureFactor))
      | Some t \<Rightarrow> Some (join append_nonnull t (mf_factors mixtureFactor)))"

text \<open>
  \<^verbatim>\<open>GaussianHybridFactorGraph::sum\<close>: the first loop, over \<^verbatim>\<open>dcGraph()\<close>, with the
  \<^verbatim>\<open>dynamic_pointer_cast\<close> (null for a null pointer and for any other class), then the
  second loop, over \<^verbatim>\<open>gaussianGraph()\<close>.
\<close>

fun sum_dc :: "'f Sum \<Rightarrow> 'f DCFactor option list \<Rightarrow> error + 'f Sum" where
  "sum_dc sm [] = Inr sm"
| "sum_dc sm (dcFactor # rest) =
     (case dcFactor of
        Some (Mixture mixtureFactor) \<Rightarrow> sum_dc (plus_mixture sm mixtureFactor) rest
      | _ \<Rightarrow> Inl (runtime_error
          ''GaussianHybridFactorGraph::sum can only handle DCGaussianMixtureFactors.''))"

fun sum_gaussian :: "'f Sum \<Rightarrow> 'f option list \<Rightarrow> 'f Sum" where
  "sum_gaussian sm [] = sm"
| "sum_gaussian sm (gaussianFactor # rest) = sum_gaussian (plus_factor sm gaussianFactor) rest"

definition sum_graph :: "('f, 'df) GaussianHybridFactorGraph \<Rightarrow> error + 'f Sum" where
  "sum_graph g =
     bind_err (sum_dc None (dcGraph g)) (\<lambda>sm. Inr (sum_gaussian sm (gaussianGraph g)))"

subsection \<open>toDecisionTreeFactor\<close>

text \<open>
  Modelled from the spec: \<^verbatim>\<open>GaussianFactorGraph::probPrime\<close> (gtsam/linear is not among
  the sources). The spec gives the score of a leaf as the residual energy at the given
  values, not exponentiated.
\<close>

definition probPrime :: "('f, 'c, 'v, 'df, 'dn) Oracles \<Rightarrow> 'f option list \<Rightarrow> 'v \<Rightarrow> real" where
  "probPrime E graph values = graph_error E graph values"

definition gfgError :: "('f, 'c, 'v, 'df, 'dn) Oracles \<Rightarrow> 'f option list \<Rightarrow> error + real" where
  "gfgError E graph = bind_err (optimize E graph) (\<lambda>values. Inr (probPrime E graph values))"

text \<open>
  The converting constructor applied to the aggregate. An empty aggregate has no leaf to
  convert and stays empty.
\<close>

definition toDecisionTreeFactor ::
  "('f, 'c, 'v, 'df, 'dn) Oracles \<Rightarrow> ('f, 'df) GaussianHybridFactorGraph
     \<Rightarrow> error + DecisionTreeFactor" where
  "toDecisionTreeFactor E g =
     bind_err (sum_graph g) (\<lambda>sm.
       case sm of
         None \<Rightarrow> Inr \<lparr>dtf_discreteKeys = discreteKeys g, potentials = None\<rparr>
       | Some t \<Rightarrow>
           bind_err (convert (\<lambda>graph u. bind_err (gfgError E graph) (\<lambda>y. Inr (y, u))) t ())
             (\<lambda>(gfgdt, u). Inr \<lparr>dtf_discreteKeys = discreteKeys g, potentials = Some gfgdt\<rparr>))"

subsection \<open>EliminateHybrid\<close>

definition zeroOut :: "'f option list \<Rightarrow> 'f option list" where
  "zeroOut gfg = (let hasNull = list_ex (\<lambda>ptr. ptr = None) gfg in if hasNull then [] else gfg)"

text \<open>
  The two key vectors that the lambda \<^verbatim>\<open>eliminate\<close> captures by reference are its state.
  \<^verbatim>\<open>result.first->keys()\<close> and \<^verbatim>\<open>result.second->keys()\<close> dereference the pointers the
  oracle returned.
\<close>

record EliminateState =
  keysOfEliminated :: KeyVector
  keysOfSeparator :: KeyVector

definition eliminate ::
  "('f, 'c, 'v, 'df, 'dn) Oracles \<Rightarrow> Ordering \<Rightarrow> 'f option list \<Rightarrow> EliminateState
     \<Rightarrow> error + (('c option \<times> 'f option) \<times> EliminateState)" where
  "eliminate E ordering' graph st =
     (if graph = [] then Inr ((None, None), st)
      else
        bind_err (EliminatePreferCholesky E graph ordering') (\<lambda>result.
        bind_err
          (if keysOfEliminated st = [] then
             (case fst result of
                None \<Rightarrow> Inl null_dereference
              | Some c \<Rightarrow> Inr (st\<lparr>keysOfEliminated := cond_keys E c\<rparr>))
           else Inr st) (\<lambda>st1.
        bind_err
          (if keysOfSeparator st1 = [] then
             (case snd result of
                None \<Rightarrow> Inl null_dereference
              | Some f \<Rightarrow> Inr (st1\<lparr>keysOfSeparator := factor_keys E f\<rparr>))
           else Inr st1) (\<lambda>st2.
        Inr (result, st2)))))"

definition factorError :: "('f, 'c, 'v, 'df, 'dn) Oracles \<Rightarrow> 'f option \<Rightarrow> real" where
  "factorError E factor = (case factor of None \<Rightarrow> 0 | Some f \<Rightarrow> exp (- factor_error E f))"

definition EliminateHybrid ::
  "('f, 'c, 'v, 'df, 'dn) Oracles \<Rightarrow> ('f, 'df) GaussianHybridFactorGraph \<Rightarrow> Ordering
     \<Rightarrow> error + (('c, 'dn) AbstractConditional \<times> ('f, 'df) Factor)" where
  "EliminateHybrid E factors ordering' =
     bind_err (sum_graph factors) (\<lambda>sm.
       case sm of
         None \<Rightarrow>
           (let dfg = [] @ discreteGraph factors in
            bind_err (EliminateForMPE E dfg ordering') (\<lambda>(df, newFactor).
              Inr (DiscreteConditional df, DiscreteFactor newFactor)))
       | Some t \<Rightarrow>
           (let sum1 = map_DecisionTree zeroOut t in
            bind_err (convert (eliminate E ordering') sum1
                        \<lparr>keysOfEliminated = [], keysOfSeparator = []\<rparr>)
              (\<lambda>(eliminationResults, st).
                 let pair = unzip eliminationResults;
                     conditionals' = fst pair;
                     separatorFactors = snd pair;
                     nrFrontals' = length ordering';
                     discreteKeys' = discreteKeys factors;
                     conditional = \<lparr>nrFrontals = nrFrontals', gm_keys = keysOfEliminated st,
                        gm_discreteKeys = discreteKeys', conditionals = conditionals'\<rparr>
                 in if keysOfSeparator st = [] then
                      (let fdt = map_DecisionTree (factorError E) separatorFactors;
                           discreteFactor = \<lparr>dtf_discreteKeys = discreteKeys factors,
                              potentials = Some fdt\<rparr>
                       in Inr (GaussianMixtureConditional conditional, PotentialFactor discreteFactor))
                    else
                      (let factor = \<lparr>mf_keys = keysOfSeparator st, mf_discreteKeys = discreteKeys',
                              mf_factors = separatorFactors\<rparr>
                       in Inr (GaussianMixtureConditional conditional, MixtureFactor factor)))))"

subsection \<open>Notions used in the statements\<close>

text \<open>The outcome of the \<^verbatim>\<open>dynamic_pointer_cast\<close> in \<^verbatim>\<open>sum\<close>, and the elements that pass it.\<close>

definition isMixture :: "'f DCFactor option \<Rightarrow> bool" where
  "isMixture dcFactor = (case dcFactor of Some (Mixture m) \<Rightarrow> True | _ \<Rightarrow> False)"

fun mixturesOf :: "'f DCFactor option list \<Rightarrow> 'f DCGaussianMixtureFactor list" where
  "mixturesOf [] = []"
| "mixturesOf (dcFactor # rest) =
     (case dcFactor of Some (Mixture m) \<Rightarrow> m # mixturesOf rest | _ \<Rightarrow> mixturesOf rest)"



text \<open>
  The potential of a residual leaf in the words of the specification, to be compared
  with \<open>factorError\<close>.
\<close>

definition potential_spec :: "('f, 'c, 'v, 'df, 'dn) Oracles \<Rightarrow> 'f option \<Rightarrow> real" where
  "potential_spec E factor = (case factor of None \<Rightarrow> 1 | Some f \<Rightarrow> exp (- factor_error E f))"

text \<open>
  The discrete keys of an aggregate are the keys its tree branches on. A tree is complete
  over a list of keys when it branches on them in that order, with as many branches at a
  key as the key has values; this is the leaf-count property of the specification. A
  mixture factor is well formed when its tree is complete over its declared discrete keys.
\<close>

definition sum_keys :: "'y DecisionTree option \<Rightarrow> Key set" where
  "sum_keys sm = (case sm of None \<Rightarrow> {} | Some t \<Rightarrow> labels t)"

fun complete :: "(Key \<Rightarrow> nat) \<Rightarrow> Key list \<Rightarrow> 'y DecisionTree \<Rightarrow> bool" where
  "complete cardinality [] t = (case t of Leaf y \<Rightarrow> True | Choice l bs \<Rightarrow> False)"
| "complete cardinality (k # ks) t =
     (case t of
        Leaf y \<Rightarrow> False
      | Choice l bs \<Rightarrow> l = k \<and> length bs = cardinality k \<and> 0 < cardinality k
          \<and> list_all (complete cardinality ks) bs)"

definition wf_mixture :: "(Key \<Rightarrow> nat) \<Rightarrow> 'f DCGaussianMixtureFactor \<Rightarrow> bool" where
  "wf_mixture cardinality m \<longleftrightarrow>
     list_all (\<lambda>(k, c). c = cardinality k) (mf_discreteKeys m)
     \<and> complete cardinality (map fst (mf_discreteKeys m)) (mf_factors m)"

definition over :: "(Key \<Rightarrow> nat) \<Rightarrow> Key list \<Rightarrow> 'y DecisionTree option \<Rightarrow> bool" where
  "over c ks sm = (case sm of None \<Rightarrow> ks = [] | Some t \<Rightarrow> complete c ks t)"







subsection \<open>A concrete scenario\<close>

text \<open>
  Two binary discrete keys \<open>M1 = 1\<close> and \<open>M2 = 2\<close>, one continuous key \<open>X1 = 10\<close>. A
  factor is its key list and its residual energy at zero; a conditional is its key list;
  a discrete factor is its list of discrete keys. \<open>demoCholesky\<close> eliminates
  symbolically: the conditional is on the ordering followed by the separator, the
  residual factor is on the separator and carries the summed energy.
\<close>

type_synonym DemoFactor = "KeyVector \<times> real"

definition demoCholesky ::
  "DemoFactor option list \<Rightarrow> Ordering \<Rightarrow> error + (KeyVector option \<times> DemoFactor option)" where
  "demoCholesky graph ordering' =
     (let fs = concat (map (\<lambda>p. case p of None \<Rightarrow> [] | Some f \<Rightarrow> [f]) graph);
          separator = remdups (filter (\<lambda>k. k \<notin> set ordering') (concat (map fst fs)))
      in Inr (Some (ordering' @ separator), Some (separator, sum_list (map snd fs))))"

definition demoOracles :: "(DemoFactor, KeyVector, unit, DiscreteKeys, DiscreteKeys) Oracles" where
  "demoOracles =
     \<lparr>EliminatePreferCholesky = demoCholesky,
      EliminateForMPE = (\<lambda>dfg ordering'. Inr (concat dfg, concat dfg)),
      cond_keys = (\<lambda>c. c),
      factor_keys = fst,
      factor_error = snd,
      optimize = (\<lambda>graph. Inr ()),
      graph_error = (\<lambda>graph values.
         sum_list (map (\<lambda>p. case p of None \<Rightarrow> 0 | Some f \<Rightarrow> snd f) graph))\<rparr>"

definition failingOracles :: "(DemoFactor, KeyVector, unit, DiscreteKeys, DiscreteKeys) Oracles" where
  "failingOracles =
     demoOracles\<lparr>EliminatePreferCholesky := (\<lambda>graph ordering'. Inl oracle_failure)\<rparr>"

definition guardedCholesky ::
  "DemoFactor option list \<Rightarrow> Ordering \<Rightarrow> error + (KeyVector option \<times> DemoFactor option)" where
  "guardedCholesky graph ordering' =
     (if None \<in> set graph then Inl oracle_failure else demoCholesky graph ordering')"

definition demoMixture :: "DemoFactor DCGaussianMixtureFactor" where
  "demoMixture = \<lparr>mf_keys = [10], mf_discreteKeys = [(1, 2)],
      mf_factors = Choice 1 [Leaf (Some ([10], 0)), Leaf (Some ([10], 4))]\<rparr>"

definition nullLeafMixture :: "DemoFactor DCGaussianMixtureFactor" where
  "nullLeafMixture = \<lparr>mf_keys = [10], mf_discreteKeys = [(1, 2)],
      mf_factors = Choice 1 [Leaf (Some ([10], 0)), Leaf None]\<rparr>"

definition secondMixture :: "DemoFactor DCGaussianMixtureFactor" where
  "secondMixture = \<lparr>mf_keys = [10], mf_discreteKeys = [(2, 2)],
      mf_factors = Choice 2 [Leaf (Some ([10], 1)), Leaf (Some ([10], 2))]\<rparr>"

definition demoGraph :: "(DemoFactor, DiscreteKeys) GaussianHybridFactorGraph" where
  "demoGraph = \<lparr>discreteGraph = [[(2, 2)]], dcGraph = [Some (Mixture demoMixture)],
      gaussianGraph = [], discreteKeys = [(1, 2), (2, 2)]\<rparr>"

definition nullLeafGraph :: "(DemoFactor, DiscreteKeys) GaussianHybridFactorGraph" where
  "nullLeafGraph = \<lparr>discreteGraph = [], dcGraph = [Some (Mixture nullLeafMixture)],
      gaussianGraph = [], discreteKeys = [(1, 2)]\<rparr>"

definition prunedGraph :: "(DemoFactor, DiscreteKeys) GaussianHybridFactorGraph" where
  "prunedGraph = \<lparr>discreteGraph = [], dcGraph = [Some (Mixture demoMixture)],
      gaussianGraph = [None], discreteKeys = [(1, 2)]\<rparr>"

definition plainGraph :: "(DemoFactor, DiscreteKeys) GaussianHybridFactorGraph" where
  "plainGraph = \<lparr>discreteGraph = [], dcGraph = [],
      gaussianGraph = [Some ([10], 3)], discreteKeys = []\<rparr>"

definition discreteOnlyGraph :: "(DemoFactor, DiscreteKeys) GaussianHybridFactorGraph" where
  "discreteOnlyGraph = \<lparr>discreteGraph = [[(1, 2)]], dcGraph = [],
      gaussianGraph = [], discreteKeys = [(1, 2)]\<rparr>"

definition malformedGraph :: "(DemoFactor, DiscreteKeys) GaussianHybridFactorGraph" where
  "malformedGraph = \<lparr>discreteGraph = [], dcGraph = [Some (Mixture demoMixture), Some OtherDCFactor],
      gaussianGraph = [], discreteKeys = [(1, 2)]\<rparr>"

definition twoMixtures :: "(DemoFactor, DiscreteKeys) GaussianHybridFactorGraph" where
  "twoMixtures = \<lparr>discreteGraph = [],
      dcGraph = [Some (Mixture demoMixture), Some (Mixture secondMixture)],
      gaussianGraph = [], discreteKeys = [(1, 2), (2, 2)]\<rparr>"

definition twoMixturesSwapped :: "(DemoFactor, DiscreteKeys) GaussianHybridFactorGraph" where
  "twoMixturesSwapped = \<lparr>discreteGraph = [],
      dcGraph = [Some (Mixture secondMixture), Some (Mixture demoMixture)],
      gaussianGraph = [], discreteKeys = [(1, 2), (2, 2)]\<rparr>"



section \<open>Properties\<close>

subsection \<open>Maps over a tree\<close>

lemma labels_map [simp]: "labels (map_DecisionTree f t) = labels t"
  by (induction t) auto

lemma leaves_map: "leaves (map_DecisionTree f t) = map f (leaves t)"
  by (induction t) (auto simp: map_concat intro: arg_cong [where f = concat])

lemma nrLeaves_map [simp]: "nrLeaves (map_DecisionTree f t) = nrLeaves t"
  by (simp add: nrLeaves_def leaves_map)

subsection \<open>The converting constructor\<close>

text \<open>Two operations that agree on the leaves of a tree convert it alike.\<close>

lemma convert_branches_cong:
  "(\<And>b s. b \<in> set bs \<Longrightarrow> convert f b s = convert g b s)
   \<Longrightarrow> convert_branches f bs s = convert_branches g bs s"
  by (induction bs arbitrary: s) (simp_all add: bind_err_def split: sum.splits)

lemma convert_cong:
  "(\<And>a s. a \<in> set (leaves t) \<Longrightarrow> f a s = g a s) \<Longrightarrow> convert f t s = convert g t s"
proof (induction t arbitrary: s)
  case (Leaf y)
  then show ?case by simp
next
  case (Choice k bs)
  have "convert_branches f bs s = convert_branches g bs s"
    by (rule convert_branches_cong) (rule Choice.IH, assumption, rule Choice.prems, auto)
  then show ?case by simp
qed

text \<open>An operation without effect on the leaves of a tree converts it as the map does.\<close>

lemma convert_branches_pure:
  "(\<And>b s. b \<in> set bs \<Longrightarrow> convert f b s = Inr (map_DecisionTree h b, s))
   \<Longrightarrow> convert_branches f bs s = Inr (map (map_DecisionTree h) bs, s)"
  by (induction bs arbitrary: s) (simp_all add: bind_err_def)

lemma convert_pure:
  "(\<And>a s. a \<in> set (leaves t) \<Longrightarrow> f a s = Inr (h a, s))
   \<Longrightarrow> convert f t s = Inr (map_DecisionTree h t, s)"
proof (induction t arbitrary: s)
  case (Leaf y)
  then show ?case by (simp add: bind_err_def)
next
  case (Choice k bs)
  have "convert_branches f bs s = Inr (map (map_DecisionTree h) bs, s)"
    by (rule convert_branches_pure) (rule Choice.IH, assumption, rule Choice.prems, auto)
  then show ?case by (simp add: bind_err_def)
qed



subsection \<open>The key vector recorded during elimination\<close>

















subsection \<open>The two loops of sum\<close>

lemma sum_gaussian_foldl: "sum_gaussian sm gs = foldl plus_factor sm gs"
  by (induction gs arbitrary: sm) simp_all

lemma sum_dc_cases:
  "sum_dc sm xs =
     (if list_all isMixture xs then Inr (foldl plus_mixture sm (mixturesOf xs))
      else Inl (runtime_error
        ''GaussianHybridFactorGraph::sum can only handle DCGaussianMixtureFactors.''))"
  by (induction xs arbitrary: sm)
     (simp_all add: isMixture_def split: option.splits DCFactor.splits)

lemma set_mixturesOf: "set (mixturesOf xs) = {m. Some (Mixture m) \<in> set xs}"
  by (induction xs) (auto split: option.splits DCFactor.splits)

lemma plus_factor_nonempty: "plus_factor sm factor \<noteq> None"
  by (simp add: plus_factor_def split: option.splits)

lemma plus_mixture_nonempty: "plus_mixture sm m \<noteq> None"
  by (simp add: plus_mixture_def split: option.splits)

lemma foldl_plus_factor_empty: "foldl plus_factor sm gs = None \<longleftrightarrow> sm = None \<and> gs = []"
  by (induction gs arbitrary: sm) (auto simp: plus_factor_nonempty)

lemma foldl_plus_mixture_empty: "foldl plus_mixture sm ms = None \<longleftrightarrow> sm = None \<and> ms = []"
  by (induction ms arbitrary: sm) (auto simp: plus_mixture_nonempty)

text \<open>The aggregate is empty exactly when the graph has no mixture and no plain factor.\<close>

lemma sum_graph_empty_iff:
  "sum_graph g = Inr None \<longleftrightarrow> dcGraph g = [] \<and> gaussianGraph g = []"
proof (cases "list_all isMixture (dcGraph g)")
  case True
  have "mixturesOf (dcGraph g) = [] \<longleftrightarrow> dcGraph g = []"
    using True by (cases "dcGraph g") (auto simp: isMixture_def split: option.splits DCFactor.splits)
  then show ?thesis
    using True
    by (auto simp: sum_graph_def sum_dc_cases bind_err_def sum_gaussian_foldl
        foldl_plus_factor_empty foldl_plus_mixture_empty)
next
  case False
  then have "dcGraph g \<noteq> []" by auto
  then show ?thesis using False by (auto simp: sum_graph_def sum_dc_cases bind_err_def)
qed

subsection \<open>Complete trees and the join\<close>

lemma complete_labels: "complete c ks t \<Longrightarrow> labels t = set ks"
proof (induction ks arbitrary: t)
  case Nil
  then show ?case by (cases t) auto
next
  case (Cons k ks)
  then obtain bs where t: "t = Choice k bs" and len: "length bs = c k" "0 < c k"
    and all: "\<forall>b \<in> set bs. complete c ks b"
    by (cases t) (auto simp: list_all_iff)
  from len have "bs \<noteq> []" by auto
  moreover have "\<forall>b \<in> set bs. labels b = set ks" using all Cons.IH by blast
  ultimately have "(\<Union>b \<in> set bs. labels b) = set ks" by (cases bs) auto
  then show ?case by (simp add: t)
qed

lemma complete_map: "complete c ks (map_DecisionTree f t) = complete c ks t"
  by (induction ks arbitrary: t) (auto simp: list_all_iff split: DecisionTree.splits)

lemma complete_restrict:
  "complete c ks g \<Longrightarrow> i < c l \<Longrightarrow> complete c (removeAll l ks) (restrict l i g)"
proof (induction ks arbitrary: g)
  case Nil
  then show ?case by (cases g) auto
next
  case (Cons k ks)
  then obtain bs where g: "g = Choice k bs" and len: "length bs = c k" "0 < c k"
    and all: "\<forall>b \<in> set bs. complete c ks b"
    by (cases g) (auto simp: list_all_iff)
  show ?case
  proof (cases "k = l")
    case True
    with Cons.prems(2) len have i: "i < length bs" by simp
    then have d: "drop i bs = bs ! i # drop (Suc i) bs" by (simp add: Cons_nth_drop_Suc)
    have "complete c ks (bs ! i)" using all i by simp
    then have "complete c (removeAll l ks) (restrict l i (bs ! i))"
      using Cons.IH Cons.prems(2) by blast
    then show ?thesis using True d by (simp add: g)
  next
    case False
    have "\<forall>b \<in> set bs. complete c (removeAll l ks) (restrict l i b)"
      using all Cons.IH Cons.prems(2) by blast
    then show ?thesis using False len by (simp add: g list_all_iff)
  qed
qed

lemma length_join_branches: "length (join_branches op k i bs g) = length bs"
  by (induction bs arbitrary: i) simp_all

lemma join_branches_all:
  "(\<And>j. j < length bs \<Longrightarrow> P (join op (bs ! j) (restrict k (i + j) g)))
   \<Longrightarrow> list_all P (join_branches op k i bs g)"
proof (induction bs arbitrary: i)
  case Nil
  then show ?case by simp
next
  case (Cons b bs)
  have "P (join op b (restrict k i g))" using Cons.prems [of 0] by simp
  moreover have "list_all P (join_branches op k (Suc i) bs g)"
  proof (rule Cons.IH)
    fix j assume "j < length bs"
    then show "P (join op (bs ! j) (restrict k (Suc i + j) g))"
      using Cons.prems [of "Suc j"] by simp
  qed
  ultimately show ?case by simp
qed

text \<open>The join of two complete trees is complete over the union of their keys.\<close>

lemma complete_join:
  "complete c ks1 f \<Longrightarrow> complete c ks2 g
   \<Longrightarrow> complete c (ks1 @ filter (\<lambda>k. k \<notin> set ks1) ks2) (join op f g)"
proof (induction ks1 arbitrary: f g ks2)
  case Nil
  then show ?case by (cases f) (auto simp: complete_map)
next
  case (Cons k ks)
  then obtain bs where f: "f = Choice k bs" and len: "length bs = c k" "0 < c k"
    and all: "\<forall>b \<in> set bs. complete c ks b"
    by (cases f) (auto simp: list_all_iff)
  have eq: "filter (\<lambda>x. x \<notin> set ks) (removeAll k ks2) = filter (\<lambda>x. x \<notin> set (k # ks)) ks2"
    by (induction ks2) auto
  have "list_all (complete c (ks @ filter (\<lambda>x. x \<notin> set (k # ks)) ks2))
          (join_branches op k 0 bs g)"
  proof (rule join_branches_all)
    fix j assume j: "j < length bs"
    then have "complete c ks (bs ! j)" using all by simp
    moreover have "complete c (removeAll k ks2) (restrict k (0 + j) g)"
      using complete_restrict [OF Cons.prems(2)] j len by simp
    ultimately show "complete c (ks @ filter (\<lambda>x. x \<notin> set (k # ks)) ks2)
        (join op (bs ! j) (restrict k (0 + j) g))"
      using Cons.IH [of "bs ! j" "removeAll k ks2" "restrict k (0 + j) g"] eq by simp
  qed
  then show ?case using len by (simp add: f length_join_branches)
qed

lemma over_keys: "over c ks sm \<Longrightarrow> sum_keys sm = set ks"
  by (auto simp: over_def sum_keys_def complete_labels split: option.splits)

lemma over_plus_mixture:
  assumes "over c ks sm" and "wf_mixture c m"
  shows "over c (ks @ filter (\<lambda>k. k \<notin> set ks) (map fst (mf_discreteKeys m))) (plus_mixture sm m)"
proof (cases sm)
  case None
  then have "ks = []" using assms(1) by (simp add: over_def)
  then show ?thesis
    using assms(2) None by (simp add: over_def plus_mixture_def wf_mixture_def complete_map)
next
  case (Some t)
  then have "complete c ks t" using assms(1) by (simp add: over_def)
  then show ?thesis
    using assms(2) Some complete_join [of c ks t "map fst (mf_discreteKeys m)" "mf_factors m"]
    by (simp add: over_def plus_mixture_def wf_mixture_def)
qed

lemma over_foldl_plus_mixture:
  "over c ks sm \<Longrightarrow> \<forall>m \<in> set ms. wf_mixture c m \<Longrightarrow>
   \<exists>ks'. over c ks' (foldl plus_mixture sm ms)
        \<and> set ks' = set ks \<union> (\<Union>m \<in> set ms. fst ` set (mf_discreteKeys m))"
proof (induction ms arbitrary: ks sm)
  case Nil
  then show ?case by auto
next
  case (Cons m ms)
  let ?ks1 = "ks @ filter (\<lambda>k. k \<notin> set ks) (map fst (mf_discreteKeys m))"
  have "over c ?ks1 (plus_mixture sm m)"
    using over_plus_mixture Cons.prems by (metis list.set_intros(1))
  from Cons.IH [OF this] Cons.prems(2)
  obtain ks' where "over c ks' (foldl plus_mixture (plus_mixture sm m) ms)"
    and "set ks' = set ?ks1 \<union> (\<Union>m \<in> set ms. fst ` set (mf_discreteKeys m))"
    by auto
  then show ?case by (intro exI [of _ ks']) auto
qed

lemma over_plus_factor: "over c ks sm \<Longrightarrow> over c ks (plus_factor sm factor)"
  by (auto simp: over_def plus_factor_def complete_map split: option.splits)

lemma over_foldl_plus_factor: "over c ks sm \<Longrightarrow> over c ks (foldl plus_factor sm gs)"
  by (induction gs arbitrary: sm) (simp_all add: over_plus_factor)

lemma sum_graph_keys:
  assumes "\<forall>x \<in> set (dcGraph g). \<exists>m. x = Some (Mixture m) \<and> wf_mixture c m"
  shows "\<exists>sm. sum_graph g = Inr sm
       \<and> sum_keys sm = (\<Union>m \<in> set (mixturesOf (dcGraph g)). fst ` set (mf_discreteKeys m))"
proof -
  have all: "list_all isMixture (dcGraph g)"
    using assms by (auto simp: list_all_iff isMixture_def)
  have wf: "\<forall>m \<in> set (mixturesOf (dcGraph g)). wf_mixture c m"
    using assms by (auto simp: set_mixturesOf)
  have "over c [] None" by (simp add: over_def)
  from over_foldl_plus_mixture [OF this wf]
  obtain ks where ks: "over c ks (foldl plus_mixture None (mixturesOf (dcGraph g)))"
    and s: "set ks = (\<Union>m \<in> set (mixturesOf (dcGraph g)). fst ` set (mf_discreteKeys m))"
    by auto
  have "sum_graph g = Inr (foldl plus_factor
      (foldl plus_mixture None (mixturesOf (dcGraph g))) (gaussianGraph g))"
    using all by (simp add: sum_graph_def sum_dc_cases bind_err_def sum_gaussian_foldl)
  moreover have "sum_keys (foldl plus_factor
      (foldl plus_mixture None (mixturesOf (dcGraph g))) (gaussianGraph g)) = set ks"
    using over_keys [OF over_foldl_plus_factor [OF ks]] .
  ultimately show ?thesis using s by simp
qed

subsection \<open>Evaluating the scenario\<close>

lemmas scenario_defs =
  EliminateHybrid_def toDecisionTreeFactor_def sum_graph_def bind_err_def plus_mixture_def
  plus_factor_def append_nonnull_def zeroOut_def eliminate_def unzip_def factorError_def
  gfgError_def probPrime_def demoOracles_def demoCholesky_def failingOracles_def
  guardedCholesky_def demoMixture_def nullLeafMixture_def secondMixture_def Let_def

section \<open>The claims\<close>

subsection \<open>Folding a plain factor\<close>

text \<open>
  C6. The plain-factor \<^verbatim>\<open>+=\<close> turns the empty aggregate into a single leaf, over no
  discrete key, whose collection holds exactly the given factor. On a non-empty
  aggregate it appends the factor to the collection of every leaf and leaves the set of
  discrete keys and the number of leaves as they were.
\<close>

theorem plus_factor_broadcast:
  "plus_factor None factor = Some (Leaf [factor])
   \<and> labels (Leaf [factor]) = {} \<and> nrLeaves (Leaf [factor]) = 1
   \<and> (\<exists>t'. plus_factor (Some t) factor = Some t'
          \<and> leaves t' = map (\<lambda>graph. graph @ [factor]) (leaves t)
          \<and> labels t' = labels t \<and> nrLeaves t' = nrLeaves t)"
  by (simp add: plus_factor_def leaves_map nrLeaves_def)

theorem plus_factor_broadcast_witness:
  "plus_factor None (Some (7::nat)) = Some (Leaf [Some 7])
   \<and> (\<exists>t'. plus_factor (Some (Choice 1 [Leaf [Some 3], Leaf [None]])) (Some (7::nat)) = Some t'
         \<and> leaves t' = [[Some 3, Some 7], [None, Some 7]]
         \<and> labels t' = {1} \<and> nrLeaves t' = 2)"
  using plus_factor_broadcast [of "Some (7::nat)" "Choice 1 [Leaf [Some 3], Leaf [None]]"]
  by (auto simp: nrLeaves_def)

subsection \<open>sum\<close>

text \<open>
  C8. \<^verbatim>\<open>sum\<close> throws if and only if some element of \<^verbatim>\<open>dcGraph()\<close> fails the cast to a
  mixture factor, and what it throws is the runtime error of the source. When every
  element passes the cast, \<^verbatim>\<open>sum\<close> returns the fold of all mixture factors followed by
  the fold of all plain factors.
\<close>

theorem sum_graph_TypeMismatch:
  "((\<exists>e. sum_graph g = Inl e) \<longleftrightarrow> (\<exists>x \<in> set (dcGraph g). \<not> isMixture x))
   \<and> (\<forall>e. sum_graph g = Inl e \<longrightarrow> e = runtime_error
          ''GaussianHybridFactorGraph::sum can only handle DCGaussianMixtureFactors.'')
   \<and> ((\<forall>x \<in> set (dcGraph g). isMixture x) \<longrightarrow>
        sum_graph g = Inr (foldl plus_factor
          (foldl plus_mixture None (mixturesOf (dcGraph g))) (gaussianGraph g)))"
  by (auto simp: sum_graph_def sum_dc_cases bind_err_def sum_gaussian_foldl list_all_iff)

theorem sum_graph_TypeMismatch_witness:
  "sum_graph malformedGraph = Inl (runtime_error
      ''GaussianHybridFactorGraph::sum can only handle DCGaussianMixtureFactors.'')
   \<and> sum_graph prunedGraph =
       Inr (Some (Choice 1 [Leaf [Some ([10], 0), None], Leaf [Some ([10], 4), None]]))"
proof -
  have bad: "\<exists>x \<in> set (dcGraph malformedGraph). \<not> isMixture x"
    by (simp add: malformedGraph_def isMixture_def)
  have good: "\<forall>x \<in> set (dcGraph prunedGraph). isMixture x"
    by (simp add: prunedGraph_def isMixture_def)
  from bad sum_graph_TypeMismatch [of malformedGraph]
  obtain e where e: "sum_graph malformedGraph = Inl e" by blast
  with sum_graph_TypeMismatch [of malformedGraph]
  have "e = runtime_error
      ''GaussianHybridFactorGraph::sum can only handle DCGaussianMixtureFactors.''" by blast
  moreover from good sum_graph_TypeMismatch [of prunedGraph]
  have "sum_graph prunedGraph = Inr (foldl plus_factor
      (foldl plus_mixture None (mixturesOf (dcGraph prunedGraph))) (gaussianGraph prunedGraph))"
    by blast
  ultimately show ?thesis
    using e
    by (simp add: prunedGraph_def demoMixture_def plus_mixture_def plus_factor_def
        append_nonnull_def)
qed

text \<open>
  C7. When every element of \<^verbatim>\<open>dcGraph()\<close> is a well-formed mixture factor, \<^verbatim>\<open>sum\<close>
  returns an aggregate whose set of discrete keys is the union of the discrete keys of
  the mixture factors, and a graph that holds the same mixture factors in another order
  gives an aggregate over the same set of keys.
\<close>

theorem sum_discrete_keys_union:
  assumes "\<forall>x \<in> set (dcGraph g). \<exists>m. x = Some (Mixture m) \<and> wf_mixture cardinality m"
    and "mset (dcGraph g') = mset (dcGraph g)"
  shows "\<exists>sm sm'. sum_graph g = Inr sm \<and> sum_graph g' = Inr sm'
       \<and> sum_keys sm = (\<Union>m \<in> set (mixturesOf (dcGraph g)). fst ` set (mf_discreteKeys m))
       \<and> sum_keys sm' = sum_keys sm"
proof -
  have s: "set (dcGraph g') = set (dcGraph g)" using assms(2) by (rule mset_eq_setD)
  then have a': "\<forall>x \<in> set (dcGraph g'). \<exists>m. x = Some (Mixture m) \<and> wf_mixture cardinality m"
    using assms(1) by simp
  have "set (mixturesOf (dcGraph g')) = set (mixturesOf (dcGraph g))"
    using s by (simp add: set_mixturesOf)
  then show ?thesis
    using sum_graph_keys [OF assms(1)] sum_graph_keys [OF a'] by auto
qed

theorem sum_discrete_keys_union_witness:
  "\<exists>sm sm'. sum_graph twoMixtures = Inr sm \<and> sum_graph twoMixturesSwapped = Inr sm'
       \<and> sum_keys sm = {1, 2} \<and> sum_keys sm' = sum_keys sm"
proof -
  have wf: "\<forall>x \<in> set (dcGraph twoMixtures).
      \<exists>m. x = Some (Mixture m) \<and> wf_mixture (\<lambda>k. 2) m"
    by (simp add: twoMixtures_def demoMixture_def secondMixture_def wf_mixture_def)
  have perm: "mset (dcGraph twoMixturesSwapped) = mset (dcGraph twoMixtures)"
    by (simp add: twoMixtures_def twoMixturesSwapped_def)
  have "(\<Union>m \<in> set (mixturesOf (dcGraph twoMixtures)). fst ` set (mf_discreteKeys m)) = {1, 2}"
    by (auto simp: twoMixtures_def demoMixture_def secondMixture_def)
  then show ?thesis
    using sum_discrete_keys_union [OF wf perm] by simp
qed

subsection \<open>toDecisionTreeFactor\<close>

text \<open>
  C2. When \<^verbatim>\<open>sum\<close> returns a non-empty aggregate and \<^verbatim>\<open>optimize\<close> succeeds on every leaf,
  \<^verbatim>\<open>toDecisionTreeFactor\<close> returns the potential over the graph's discrete keys whose
  leaf for a collection is the residual energy of the collection at its optimum, not
  exponentiated. For an aggregate without discrete keys the potential is the single
  leaf with the residual energy of the one collection at its optimum.
\<close>

theorem toDecisionTreeFactor_scores:
  assumes "sum_graph g = Inr (Some t)"
    and "\<forall>graph \<in> set (leaves t). optimize E graph = Inr (optimum graph)"
  shows "toDecisionTreeFactor E g =
           Inr \<lparr>dtf_discreteKeys = discreteKeys g,
                potentials = Some (map_DecisionTree
                  (\<lambda>graph. graph_error E graph (optimum graph)) t)\<rparr>
         \<and> (labels t = {} \<longrightarrow> (\<exists>graph. t = Leaf graph \<and>
               toDecisionTreeFactor E g =
                 Inr \<lparr>dtf_discreteKeys = discreteKeys g,
                      potentials = Some (Leaf (graph_error E graph (optimum graph)))\<rparr>))"
proof -
  have c: "convert (\<lambda>graph u. bind_err (gfgError E graph) (\<lambda>y. Inr (y, u))) t () =
      Inr (map_DecisionTree (\<lambda>graph. graph_error E graph (optimum graph)) t, ())"
    by (rule convert_pure) (use assms(2) in \<open>simp add: gfgError_def probPrime_def bind_err_def\<close>)
  have main: "toDecisionTreeFactor E g =
           Inr \<lparr>dtf_discreteKeys = discreteKeys g,
                potentials = Some (map_DecisionTree
                  (\<lambda>graph. graph_error E graph (optimum graph)) t)\<rparr>"
    using assms(1) c by (simp add: toDecisionTreeFactor_def bind_err_def)
  have "labels t = {} \<Longrightarrow> \<exists>graph. t = Leaf graph" by (cases t) auto
  with main show ?thesis by auto
qed

theorem toDecisionTreeFactor_scores_witness:
  "toDecisionTreeFactor demoOracles demoGraph =
     Inr \<lparr>dtf_discreteKeys = [(1, 2), (2, 2)], potentials = Some (Choice 1 [Leaf 0, Leaf 4])\<rparr>
   \<and> toDecisionTreeFactor demoOracles plainGraph =
     Inr \<lparr>dtf_discreteKeys = [], potentials = Some (Leaf 3)\<rparr>"
proof -
  have s1: "sum_graph demoGraph =
      Inr (Some (Choice 1 [Leaf [Some ([10], 0)], Leaf [Some ([10], 4)]]))"
    by (simp add: scenario_defs demoGraph_def)
  have s2: "sum_graph plainGraph = Inr (Some (Leaf [Some ([10], 3)]))"
    by (simp add: scenario_defs plainGraph_def)
  have o1: "\<forall>graph \<in> set (leaves (Choice 1 [Leaf [Some ([10::nat], 0::real)], Leaf [Some ([10], 4)]])).
      optimize demoOracles graph = Inr ((\<lambda>graph. ()) graph)"
    by (simp add: demoOracles_def)
  have o2: "\<forall>graph \<in> set (leaves (Leaf [Some ([10::nat], 3::real)])).
      optimize demoOracles graph = Inr ((\<lambda>graph. ()) graph)"
    by (simp add: demoOracles_def)
  show ?thesis
    using toDecisionTreeFactor_scores [OF s1 o1] toDecisionTreeFactor_scores [OF s2 o2]
    by (simp add: demoOracles_def demoGraph_def plainGraph_def)
qed

subsection \<open>EliminateHybrid\<close>

text \<open>
  C5. When the aggregate that \<^verbatim>\<open>sum\<close> returns is empty, \<^verbatim>\<open>EliminateHybrid\<close> is the
  discrete elimination applied to the graph's discrete factors and the same ordering:
  it returns the pair of that call unchanged, and fails as that call fails.
\<close>

theorem EliminateHybrid_fallback:
  "sum_graph g = Inr None \<Longrightarrow>
   EliminateHybrid E g ordering' =
     (case EliminateForMPE E (discreteGraph g) ordering' of
        Inl e \<Rightarrow> Inl e
      | Inr (discreteConditional, discreteFactor) \<Rightarrow>
          Inr (DiscreteConditional discreteConditional, DiscreteFactor discreteFactor))"
  by (simp add: EliminateHybrid_def bind_err_def)

theorem EliminateHybrid_fallback_witness:
  "sum_graph discreteOnlyGraph = Inr None
   \<and> EliminateHybrid demoOracles discreteOnlyGraph [1] =
       Inr (DiscreteConditional [(1, 2)], DiscreteFactor [(1, 2)])"
proof -
  have s: "sum_graph discreteOnlyGraph = Inr None"
    by (simp add: sum_graph_def bind_err_def discreteOnlyGraph_def)
  show ?thesis
    using s EliminateHybrid_fallback [OF s, of demoOracles "[1]"]
    by (simp add: demoOracles_def discreteOnlyGraph_def)
qed

text \<open>
  C4. \<^verbatim>\<open>zeroOut\<close> replaces a collection that holds a null pointer by the empty
  collection and keeps any other collection; \<^verbatim>\<open>eliminate\<close> maps the empty collection to
  the pair of null pointers without calling the oracle. Hence \<^verbatim>\<open>EliminateHybrid\<close> never
  calls the continuous oracle on a collection that is empty or holds a null pointer:
  its outcome is the same for any two oracles that agree on the non-empty collections
  without null pointers.
\<close>

theorem null_never_reaches_oracle:
  "(None \<in> set gfg \<longrightarrow> zeroOut gfg = [])
   \<and> (None \<notin> set gfg \<longrightarrow> zeroOut gfg = gfg)
   \<and> eliminate E ordering' [] st = Inr ((None, None), st)
   \<and> ((\<forall>graph. graph \<noteq> [] \<and> None \<notin> set graph \<longrightarrow>
          cholesky' graph ordering' = EliminatePreferCholesky E graph ordering') \<longrightarrow>
        EliminateHybrid (E\<lparr>EliminatePreferCholesky := cholesky'\<rparr>) g ordering'
          = EliminateHybrid E g ordering')"
proof (intro conjI impI)
  show "None \<in> set gfg \<Longrightarrow> zeroOut gfg = []"
    by (auto simp: zeroOut_def list_ex_iff)
  show "None \<notin> set gfg \<Longrightarrow> zeroOut gfg = gfg"
    by (auto simp: zeroOut_def list_ex_iff)
  show "eliminate E ordering' [] st = Inr ((None, None), st)"
    by (simp add: eliminate_def)
next
  let ?E' = "E\<lparr>EliminatePreferCholesky := cholesky'\<rparr>"
  assume agree: "\<forall>graph. graph \<noteq> [] \<and> None \<notin> set graph \<longrightarrow>
          cholesky' graph ordering' = EliminatePreferCholesky E graph ordering'"
  have conv: "convert (eliminate ?E' ordering') (map_DecisionTree zeroOut t) s
      = convert (eliminate E ordering') (map_DecisionTree zeroOut t) s" for t s
  proof (rule convert_cong)
    fix a s assume "a \<in> set (leaves (map_DecisionTree zeroOut t))"
    then have "None \<notin> set a"
      by (auto simp: leaves_map zeroOut_def Let_def list_ex_iff split: if_splits)
    then show "eliminate ?E' ordering' a s = eliminate E ordering' a s"
      using agree by (simp add: eliminate_def cong: if_cong option.case_cong)
  qed
  have fe: "factorError ?E' = factorError E"
    by (rule ext) (simp add: factorError_def cong: option.case_cong)
  show "EliminateHybrid ?E' g ordering' = EliminateHybrid E g ordering'"
    by (simp add: EliminateHybrid_def conv fe Let_def cong: option.case_cong if_cong)
qed

theorem null_never_reaches_oracle_witness:
  "zeroOut [Some ([10::nat], 0::real), None] = []
   \<and> zeroOut [Some ([10::nat], 0::real)] = [Some ([10], 0)]
   \<and> EliminateHybrid (demoOracles\<lparr>EliminatePreferCholesky := guardedCholesky\<rparr>) prunedGraph [10]
       = EliminateHybrid demoOracles prunedGraph [10]"
proof -
  have agree: "\<forall>graph. graph \<noteq> [] \<and> None \<notin> set graph \<longrightarrow>
      guardedCholesky graph [10] = EliminatePreferCholesky demoOracles graph [10]"
    by (simp add: guardedCholesky_def demoOracles_def)
  have n1: "None \<in> set [Some ([10::nat], 0::real), None]" by simp
  have n2: "None \<notin> set [Some ([10::nat], 0::real)]" by simp
  show ?thesis
    using null_never_reaches_oracle [of "[Some ([10::nat], 0::real), None]" demoOracles "[10]"
        "\<lparr>keysOfEliminated = [], keysOfSeparator = []\<rparr>" guardedCholesky prunedGraph]
      null_never_reaches_oracle [of "[Some ([10::nat], 0::real)]" demoOracles "[10]"
        "\<lparr>keysOfEliminated = [], keysOfSeparator = []\<rparr>" guardedCholesky prunedGraph]
      agree n1 n2
    by blast
qed

text \<open>
  C10. When the aggregate is non-empty and \<^verbatim>\<open>zeroOut\<close> empties the collection of every
  leaf, \<^verbatim>\<open>EliminateHybrid\<close> returns, whatever the oracles do: the mixture conditional has
  an empty key list and a null conditional at every leaf, and the second component is
  the discrete potential whose every leaf is \<open>0\<close>.
\<close>

theorem EliminateHybrid_all_infeasible:
  assumes "sum_graph g = Inr (Some t)"
    and "\<forall>graph \<in> set (leaves t). zeroOut graph = []"
  shows "EliminateHybrid E g ordering' =
     Inr (GaussianMixtureConditional
            \<lparr>nrFrontals = length ordering', gm_keys = [], gm_discreteKeys = discreteKeys g,
             conditionals = map_DecisionTree (\<lambda>graph. None) t\<rparr>,
          PotentialFactor
            \<lparr>dtf_discreteKeys = discreteKeys g,
             potentials = Some (map_DecisionTree (\<lambda>graph. 0) t)\<rparr>)"
proof -
  let ?init = "\<lparr>keysOfEliminated = [], keysOfSeparator = []\<rparr>"
  have "convert (eliminate E ordering') (map_DecisionTree zeroOut t) ?init =
      Inr (map_DecisionTree (\<lambda>graph. (None, None)) (map_DecisionTree zeroOut t), ?init)"
    by (rule convert_pure) (use assms(2) in \<open>auto simp: leaves_map eliminate_def\<close>)
  then show ?thesis
    using assms(1)
    by (simp add: EliminateHybrid_def bind_err_def unzip_def Let_def factorError_def
        DecisionTree.map_comp o_def)
qed

theorem EliminateHybrid_all_infeasible_witness:
  "EliminateHybrid failingOracles prunedGraph [10] =
     Inr (GaussianMixtureConditional
            \<lparr>nrFrontals = 1, gm_keys = [], gm_discreteKeys = [(1, 2)],
             conditionals = Choice 1 [Leaf None, Leaf None]\<rparr>,
          PotentialFactor
            \<lparr>dtf_discreteKeys = [(1, 2)], potentials = Some (Choice 1 [Leaf 0, Leaf 0])\<rparr>)"
proof -
  have s: "sum_graph prunedGraph =
      Inr (Some (Choice 1 [Leaf [Some ([10], 0), None], Leaf [Some ([10], 4), None]]))"
    by (simp add: scenario_defs prunedGraph_def)
  have z: "\<forall>graph \<in> set (leaves (Choice 1 [Leaf [Some ([10::nat], 0::real), None],
      Leaf [Some ([10], 4), None]])). zeroOut graph = []"
    by (simp add: zeroOut_def)
  show ?thesis
    using EliminateHybrid_all_infeasible [OF s z, of failingOracles "[10]"]
    by (simp add: prunedGraph_def)
qed

text \<open>
  C1. When per-hypothesis elimination succeeds and leaves the separator key
  vector empty, the second component of \<^verbatim>\<open>EliminateHybrid\<close> is the discrete potential
  over the graph's discrete keys obtained by mapping every leaf of the residual-factor
  tree through: \<open>0\<close> if the factor is null, and \<open>exp (- error)\<close> otherwise, where the
  error is the factor's residual energy at the empty values.
\<close>

theorem EliminateHybrid_discrete_potential:
  assumes "sum_graph g = Inr (Some t)"
    and "convert (eliminate E ordering') (map_DecisionTree zeroOut t)
           \<lparr>keysOfEliminated = [], keysOfSeparator = []\<rparr> = Inr (eliminationResults, st)"
    and "keysOfSeparator st = []"
  shows "\<exists>conditional. EliminateHybrid E g ordering' =
           Inr (conditional, PotentialFactor
             \<lparr>dtf_discreteKeys = discreteKeys g,
              potentials = Some (map_DecisionTree
                (\<lambda>factor. case factor of None \<Rightarrow> 0 | Some f \<Rightarrow> exp (- factor_error E f))
                (map_DecisionTree snd eliminationResults))\<rparr>)"
proof -
  have "factorError E = (\<lambda>factor. case factor of None \<Rightarrow> 0 | Some f \<Rightarrow> exp (- factor_error E f))"
    by (rule ext) (simp add: factorError_def)
  then show ?thesis
    using assms by (simp add: EliminateHybrid_def bind_err_def unzip_def Let_def)
qed

theorem EliminateHybrid_discrete_potential_witness:
  "\<exists>conditional. EliminateHybrid demoOracles nullLeafGraph [10] =
     Inr (conditional, PotentialFactor
       \<lparr>dtf_discreteKeys = [(1, 2)], potentials = Some (Choice 1 [Leaf 1, Leaf 0])\<rparr>)"
proof -
  have s: "sum_graph nullLeafGraph = Inr (Some (Choice 1 [Leaf [Some ([10], 0)], Leaf []]))"
    by (simp add: scenario_defs nullLeafGraph_def)
  have c: "convert (eliminate demoOracles [10])
      (map_DecisionTree zeroOut (Choice 1 [Leaf [Some ([10], 0)], Leaf []]))
      \<lparr>keysOfEliminated = [], keysOfSeparator = []\<rparr> =
      Inr (Choice 1 [Leaf (Some [10], Some ([], 0)), Leaf (None, None)],
           \<lparr>keysOfEliminated = [10], keysOfSeparator = []\<rparr>)"
    by (simp add: scenario_defs)
  have k: "keysOfSeparator \<lparr>keysOfEliminated = [10], keysOfSeparator = []\<rparr> = []" by simp
  show ?thesis
    using EliminateHybrid_discrete_potential [OF s c k]
    by (simp add: demoOracles_def nullLeafGraph_def)
qed

text \<open>
  C1 as the specification words it, with the potential \<open>1\<close> for a null factor,
  fails on \<open>nullLeafGraph\<close>: the residual-factor tree has a null second leaf, the
  potential the code builds is \<open>0\<close> there, and the potential of the specification is \<open>1\<close>.
\<close>

theorem null_potential_counterexample:
  "convert (eliminate demoOracles [10])
      (map_DecisionTree zeroOut (Choice 1 [Leaf [Some ([10], 0)], Leaf []]))
      \<lparr>keysOfEliminated = [], keysOfSeparator = []\<rparr> =
      Inr (Choice 1 [Leaf (Some [10], Some ([], 0)), Leaf (None, None)],
           \<lparr>keysOfEliminated = [10], keysOfSeparator = []\<rparr>)
   \<and> EliminateHybrid demoOracles nullLeafGraph [10] =
       Inr (GaussianMixtureConditional
              \<lparr>nrFrontals = 1, gm_keys = [10], gm_discreteKeys = [(1, 2)],
               conditionals = Choice 1 [Leaf (Some [10]), Leaf None]\<rparr>,
            PotentialFactor
              \<lparr>dtf_discreteKeys = [(1, 2)], potentials = Some (Choice 1 [Leaf 1, Leaf 0])\<rparr>)
   \<and> map_DecisionTree (potential_spec demoOracles) (Choice 1 [Leaf (Some ([], 0)), Leaf None])
       = Choice 1 [Leaf 1, Leaf 1]
   \<and> Choice 1 [Leaf 1, Leaf 0] \<noteq> (Choice 1 [Leaf 1, Leaf 1] :: real DecisionTree)"
  by (simp add: scenario_defs nullLeafGraph_def potential_spec_def)




end
